theory Spec2Isabelle
  imports Main
begin

section \<open>Data model of \<open>verifyHash\<close>\<close>

text \<open>
  \<open>Hex\<close> and \<open>Address\<close> are the template-literal string types \<open>`0x${string}`\<close> of the
  source: plain strings at run time.
\<close>

type_synonym Hex = string
type_synonym Address = string

text \<open>
  The structured signature \<open>Signature\<close> of \<open>types/misc.js\<close>: the fields \<open>r\<close>, \<open>s\<close>, and the
  optional \<open>v\<close> and \<open>yParity\<close>, in this order.
\<close>

datatype Signature = Signature Hex Hex "int option" "int option"

text \<open>
  The parameter \<open>signature: Hex | ByteArray | Signature\<close> is a union that the source
  tells apart at run time (\<open>isHex\<close>, \<open>typeof\<close>, \<open>'r' in signature\<close>).
\<close>

datatype signature_input =
    SigHex Hex
  | SigBytes "nat list"
  | SigObject Signature

text \<open>
  Errors are values. \<open>CallExecutionError\<close> is the class that the \<open>catch\<close> block tests with
  \<open>instanceof\<close>; \<open>InvalidHexBooleanError\<close> is the decoder's error named in
  \<open>VerifyHashErrorType\<close>; every other error is \<open>OtherError name message\<close>.
\<close>

datatype error =
    CallExecutionError string
  | InvalidHexBooleanError Hex
  | OtherError string string

fun isCallExecutionError :: "error \<Rightarrow> bool" where
  "isCallExecutionError (CallExecutionError _) = True"
| "isCallExecutionError _ = False"

text \<open>
  \<open>rest\<close> of the source is what is left of the parameters after destructuring:
  \<open>Pick<CallParameters, 'blockNumber' | 'blockTag'>\<close>. Both parameter records extend it,
  which is what the spread \<open>...rest\<close> does.
\<close>

record BlockOptions =
  blockNumber :: "int option"
  blockTag :: "string option"

record VerifyHashParameters = BlockOptions +
  address :: Address
  factory :: "Address option"
  factoryData :: "Hex option"
  hash :: Hex
  signature :: signature_input

record CallParameters = BlockOptions +
  to :: "Address option"
  data :: "Hex option"

subsection \<open>Chains and clients\<close>

record ChainContract =
  contract_address :: Address
  blockCreated :: "nat option"

record Contracts =
  multicall3 :: "ChainContract option"
  universalSignatureVerifier :: "ChainContract option"

record NativeCurrency =
  decimals :: nat
  currency_name :: string
  symbol :: string

record RpcUrls =
  http :: "string list"
  webSocket :: "string list"

record BlockExplorer =
  explorer_name :: string
  url :: string
  apiUrl :: string

record Chain =
  chain_id :: nat
  chain_name :: string
  network :: string
  nativeCurrency :: NativeCurrency
  rpcUrls :: RpcUrls
  blockExplorers :: "(string \<times> BlockExplorer) list"
  contracts :: "Contracts option"

record Client =
  chain :: "Chain option"

text \<open>The chain definition \<open>zksync\<close> of \<open>chains/definitions/zksync.ts\<close>.\<close>

definition zksync :: Chain where
  "zksync = \<lparr>
     chain_id = 324,
     chain_name = ''ZKsync Era'',
     network = ''zksync-era'',
     nativeCurrency = \<lparr>decimals = 18, currency_name = ''Ether'', symbol = ''ETH''\<rparr>,
     rpcUrls = \<lparr>http = [''https://mainnet.era.zksync.io''],
                webSocket = [''wss://mainnet.era.zksync.io/ws'']\<rparr>,
     blockExplorers =
       [(''default'', \<lparr>explorer_name = ''Etherscan'',
                       url = ''https://era.zksync.network/'',
                       apiUrl = ''https://api-era.zksync.network/api''\<rparr>),
        (''native'', \<lparr>explorer_name = ''ZKsync Explorer'',
                      url = ''https://explorer.zksync.io/'',
                      apiUrl = ''https://block-explorer-api.mainnet.zksync.io/api''\<rparr>)],
     contracts = Some \<lparr>
       multicall3 = Some \<lparr>contract_address = ''0xF9cda624FBC7e059355ce98a31693d299FACd963'',
                          blockCreated = None\<rparr>,
       universalSignatureVerifier =
         Some \<lparr>contract_address = ''0x872146211f996755C8729042093ffb8660F8b129'',
               blockCreated = Some 45659388\<rparr>\<rparr>\<rparr>"

text \<open>\<open>client.chain?.contracts?.universalSignatureVerifier\<close>: each \<open>?.\<close> stops at an absent value.\<close>

definition chainVerifier :: "Client \<Rightarrow> ChainContract option" where
  "chainVerifier client =
     (case chain client of
        None \<Rightarrow> None
      | Some c \<Rightarrow> (case contracts c of
                    None \<Rightarrow> None
                  | Some cs \<Rightarrow> universalSignatureVerifier cs))"

subsection \<open>The imported functions\<close>

text \<open>
  \<open>verifyHash\<close> imports its helpers from modules that are not part of the sources at hand.
  They are parameters of the model, one field for each import, so that every theorem
  below holds whatever they compute. A helper that can throw returns \<open>error + 'a\<close>.
  \<open>call\<close> stands for \<open>getAction(client, call, 'call')\<close>; it returns the field \<open>data\<close> of
  the call's result, which may be absent.
\<close>

record Deps =
  isHex :: "Hex \<Rightarrow> bool"
  serializeSignature :: "Signature \<Rightarrow> error + Hex"
  bytesToHex :: "signature_input \<Rightarrow> error + Hex"
  isErc6492Signature :: "Hex \<Rightarrow> bool"
  serializeErc6492Signature :: "Address option \<Rightarrow> Hex option \<Rightarrow> Hex \<Rightarrow> error + Hex"
  universalSignatureValidatorAbi :: string
  universalSignatureValidatorByteCode :: Hex
  encodeFunctionData :: "string \<Rightarrow> string \<Rightarrow> Hex list \<Rightarrow> error + Hex"
  encodeDeployData :: "string \<Rightarrow> Hex list \<Rightarrow> Hex \<Rightarrow> error + Hex"
  call :: "Client \<Rightarrow> CallParameters \<Rightarrow> error + Hex option"
  hexToBool :: "Hex \<Rightarrow> error + bool"
  getAddress :: "Address \<Rightarrow> error + Address"
  recoverAddress :: "Hex \<Rightarrow> signature_input \<Rightarrow> error + Address"
  isAddressEqual :: "Address \<Rightarrow> Address \<Rightarrow> error + bool"

text \<open>
  What \<open>verifyHash\<close> asks of its collaborators is recorded, in order: the wrapping of a
  signature, the remote call with its payload, and the elliptic-curve recovery with the
  hash and signature handed to it.
\<close>

datatype event =
    Wrapped "Address option" "Hex option" Hex
  | Called CallParameters
  | Recovered Hex signature_input

section \<open>The steps of \<open>verifyHash\<close>\<close>

text \<open>
  \<open>signatureHex\<close>: a string that \<open>isHex\<close> accepts is returned as it is; an object with \<open>r\<close>
  and \<open>s\<close> is serialized; everything else goes to \<open>bytesToHex\<close>. \<open>isHex\<close> is a type guard
  for strings, and a string is not an object, so a string that \<open>isHex\<close> refuses reaches
  \<open>bytesToHex\<close> too.
\<close>

definition signatureHex :: "Deps \<Rightarrow> signature_input \<Rightarrow> error + Hex" where
  "signatureHex deps sg =
     (case sg of
        SigHex h \<Rightarrow> if isHex deps h then Inr h else bytesToHex deps sg
      | SigObject sobj \<Rightarrow> serializeSignature deps sobj
      | SigBytes bs \<Rightarrow> bytesToHex deps sg)"

text \<open>JavaScript's \<open>!x\<close> on an optional string: true of \<open>undefined\<close> and of the empty string.\<close>

definition falsy :: "string option \<Rightarrow> bool" where
  "falsy x = (case x of None \<Rightarrow> True | Some str \<Rightarrow> str = [])"

definition wrappedSignature ::
  "Deps \<Rightarrow> Address option \<Rightarrow> Hex option \<Rightarrow> Hex \<Rightarrow> event list \<times> (error + Hex)" where
  "wrappedSignature deps fac facData sigHex =
     (if falsy fac \<and> falsy facData then ([], Inr sigHex)
      else if isErc6492Signature deps sigHex then ([], Inr sigHex)
      else ([Wrapped fac facData sigHex], serializeErc6492Signature deps fac facData sigHex))"

definition callParameters ::
  "Deps \<Rightarrow> Client \<Rightarrow> VerifyHashParameters \<Rightarrow> Hex \<Rightarrow> error + CallParameters" where
  "callParameters deps client p wrapped =
     (case chainVerifier client of
        Some verifier \<Rightarrow>
          (case encodeFunctionData deps (universalSignatureValidatorAbi deps)
                  ''isValidUniversalSig'' [address p, hash p, wrapped] of
             Inl e \<Rightarrow> Inl e
           | Inr d \<Rightarrow> Inr \<lparr>blockNumber = blockNumber p, blockTag = blockTag p,
                          to = Some (contract_address verifier), data = Some d\<rparr>)
      | None \<Rightarrow>
          (case encodeDeployData deps (universalSignatureValidatorAbi deps)
                  [address p, hash p, wrapped] (universalSignatureValidatorByteCode deps) of
             Inl e \<Rightarrow> Inl e
           | Inr d \<Rightarrow> Inr \<lparr>blockNumber = blockNumber p, blockTag = blockTag p,
                          to = None, data = Some d\<rparr>))"

text \<open>The body of the outer \<open>try\<close>: build the payload, call, decode \<open>data ?? '0x0'\<close>.\<close>

definition remoteVerify ::
  "Deps \<Rightarrow> Client \<Rightarrow> VerifyHashParameters \<Rightarrow> Hex \<Rightarrow> event list \<times> (error + bool)" where
  "remoteVerify deps client p wrapped =
     (case callParameters deps client p wrapped of
        Inl e \<Rightarrow> ([], Inl e)
      | Inr cp \<Rightarrow>
          ([Called cp],
           case call deps client cp of
             Inl e \<Rightarrow> Inl e
           | Inr d \<Rightarrow> hexToBool deps (case d of None \<Rightarrow> ''0x0'' | Some h \<Rightarrow> h)))"

text \<open>
  The inner \<open>try\<close>: \<open>getAddress(address)\<close> is evaluated first, then \<open>recoverAddress\<close> on the
  \<open>hash\<close> and the \<open>signature\<close> of the parameters, then \<open>isAddressEqual\<close>. An error of any
  of the three is caught by the empty \<open>catch\<close> and leaves \<open>verified\<close> unset.
\<close>

definition fallbackVerified :: "Deps \<Rightarrow> VerifyHashParameters \<Rightarrow> event list \<times> bool" where
  "fallbackVerified deps p =
     (case getAddress deps (address p) of
        Inl _ \<Rightarrow> ([], False)
      | Inr a \<Rightarrow>
          ([Recovered (hash p) (signature p)],
           case recoverAddress deps (hash p) (signature p) of
             Inl _ \<Rightarrow> False
           | Inr recovered \<Rightarrow>
               (case isAddressEqual deps a recovered of
                  Inl _ \<Rightarrow> False
                | Inr verified \<Rightarrow> verified)))"

text \<open>The \<open>catch (error)\<close> block.\<close>

definition catchError ::
  "Deps \<Rightarrow> VerifyHashParameters \<Rightarrow> error \<Rightarrow> event list \<times> (error + bool)" where
  "catchError deps p err =
     (case fallbackVerified deps p of
        (tr, verified) \<Rightarrow>
          (tr, if verified then Inr True
               else if isCallExecutionError err then Inr False
               else Inl err))"

definition verifyHash ::
  "Deps \<Rightarrow> Client \<Rightarrow> VerifyHashParameters \<Rightarrow> event list \<times> (error + bool)" where
  "verifyHash deps client p =
     (case signatureHex deps (signature p) of
        Inl e \<Rightarrow> ([], Inl e)
      | Inr sigHex \<Rightarrow>
          (case wrappedSignature deps (factory p) (factoryData p) sigHex of
             (tr1, Inl e) \<Rightarrow> (tr1, Inl e)
           | (tr1, Inr wrapped) \<Rightarrow>
               (case remoteVerify deps client p wrapped of
                  (tr2, Inr b) \<Rightarrow> (tr1 @ tr2, Inr b)
                | (tr2, Inl err) \<Rightarrow>
                    (case catchError deps p err of
                       (tr3, res) \<Rightarrow> (tr1 @ tr2 @ tr3, res)))))"

subsection \<open>Reading the record of events\<close>

fun calls :: "event list \<Rightarrow> CallParameters list" where
  "calls [] = []"
| "calls (Called cp # tr) = cp # calls tr"
| "calls (_ # tr) = calls tr"

fun recoveries :: "event list \<Rightarrow> (Hex \<times> signature_input) list" where
  "recoveries [] = []"
| "recoveries (Recovered h sg # tr) = (h, sg) # recoveries tr"
| "recoveries (_ # tr) = recoveries tr"

fun wraps :: "event list \<Rightarrow> (Address option \<times> Hex option \<times> Hex) list" where
  "wraps [] = []"
| "wraps (Wrapped fac facData sg # tr) = (fac, facData, sg) # wraps tr"
| "wraps (_ # tr) = wraps tr"

section \<open>Helpers described by the specification\<close>

subsection \<open>Hexadecimal strings\<close>

definition hexDigits :: "(char \<times> nat) list" where
  "hexDigits =
     [(CHR ''0'', 0), (CHR ''1'', 1), (CHR ''2'', 2), (CHR ''3'', 3), (CHR ''4'', 4),
      (CHR ''5'', 5), (CHR ''6'', 6), (CHR ''7'', 7), (CHR ''8'', 8), (CHR ''9'', 9),
      (CHR ''a'', 10), (CHR ''b'', 11), (CHR ''c'', 12), (CHR ''d'', 13), (CHR ''e'', 14),
      (CHR ''f'', 15), (CHR ''A'', 10), (CHR ''B'', 11), (CHR ''C'', 12), (CHR ''D'', 13),
      (CHR ''E'', 14), (CHR ''F'', 15)]"

fun digitValues :: "string \<Rightarrow> nat list option" where
  "digitValues [] = Some []"
| "digitValues (c # cs) =
     (case map_of hexDigits c of
        None \<Rightarrow> None
      | Some d \<Rightarrow> (case digitValues cs of None \<Rightarrow> None | Some ds \<Rightarrow> Some (d # ds)))"

fun pairBytes :: "nat list \<Rightarrow> nat list" where
  "pairBytes (hi # lo # ds) = (16 * hi + lo) # pairBytes ds"
| "pairBytes [d] = [d]"
| "pairBytes [] = []"

text \<open>
  The bytes that a hex string denotes: \<open>0x\<close>, then hexadecimal digits, two to a byte; a
  string with an odd number of digits (such as the \<open>'0x0'\<close> of the source) is read with a
  leading zero digit. \<open>None\<close> when the string is not of this form.
\<close>

definition hexBytes :: "Hex \<Rightarrow> nat list option" where
  "hexBytes h =
     (if take 2 h = ''0x'' then
        (case digitValues (drop 2 h) of
           None \<Rightarrow> None
         | Some ds \<Rightarrow> Some (pairBytes (if even (length ds) then ds else 0 # ds)))
      else None)"

subsection \<open>The result decoder\<close>

text \<open>
  Modelled from the spec: \<open>hexToBool\<close> of \<open>utils/encoding/fromHex.js\<close> is imported by
  \<open>verifyHash\<close> and is not among the sources. The specification's decoder (4.3): empty data
  decodes to \<open>false\<close>; otherwise the trailing byte decides, nonzero meaning \<open>true\<close>; data
  that is not boolean-shaped fails with the encoding error. Boolean-shaped is read as:
  a well-formed hex string whose bytes are the number zero or one.
\<close>

definition booleanShaped :: "nat list \<Rightarrow> bool" where
  "booleanShaped bs = (list_all (\<lambda>b. b = 0) (butlast bs) \<and> last bs \<le> 1)"

definition decodeBool :: "Hex \<Rightarrow> error + bool" where
  "decodeBool h =
     (case hexBytes h of
        None \<Rightarrow> Inl (InvalidHexBooleanError h)
      | Some bs \<Rightarrow>
          if bs = [] then Inr False
          else if booleanShaped bs then Inr (last bs \<noteq> 0)
          else Inl (InvalidHexBooleanError h))"

subsection \<open>The wrapper marker\<close>

definition erc6492MagicBytes :: Hex where
  "erc6492MagicBytes = ''0x6492649264926492649264926492649264926492649264926492649264926492''"

text \<open>
  Modelled from the spec: \<open>isErc6492Signature\<close> of \<open>utils/signature/isErc6492Signature.js\<close>
  is not among the sources. The specification's \<open>isWrapped\<close> (4.1): true iff the byte
  sequence ends with the fixed magic marker of the wrapper format.
\<close>

definition endsWithMagic :: "Hex \<Rightarrow> bool" where
  "endsWithMagic sg =
     (66 \<le> length sg \<and> take 2 sg = ''0x'' \<and> drop (length sg - 64) sg = drop 2 erc6492MagicBytes)"

section \<open>A concrete set of collaborators\<close>

text \<open>
  The closed examples below need collaborators that compute. These stand in for the
  imported functions: the strict hex test \<open>^0x[0-9a-fA-F]*$\<close> for \<open>isHex\<close>, the decoder and
  the marker test above, plain concatenations for the encoders, and fixed answers for the
  call executor and for the elliptic-curve recovery, which are given as arguments.
\<close>

definition hexStrict :: "Hex \<Rightarrow> bool" where
  "hexStrict h = (take 2 h = ''0x'' \<and> digitValues (drop 2 h) \<noteq> None)"

definition byteHex :: "nat \<Rightarrow> string" where
  "byteHex b = [''0123456789abcdef'' ! (b div 16 mod 16), ''0123456789abcdef'' ! (b mod 16)]"

definition padLeft64 :: "string \<Rightarrow> string" where
  "padLeft64 ds = replicate (64 - length ds) (CHR ''0'') @ ds"

definition stubSerializeSignature :: "Signature \<Rightarrow> error + Hex" where
  "stubSerializeSignature sobj =
     (case sobj of Signature r s v yParity \<Rightarrow>
        if hexStrict r \<and> hexStrict s then
          Inr (''0x'' @ padLeft64 (drop 2 r) @ padLeft64 (drop 2 s) @
               (if yParity = Some 1 \<or> (yParity = None \<and> v = Some 28) then ''1c'' else ''1b''))
        else Inl (OtherError ''SyntaxError'' ''Cannot convert to a BigInt''))"

definition stubBytesToHex :: "signature_input \<Rightarrow> error + Hex" where
  "stubBytesToHex sg =
     (case sg of
        SigBytes bs \<Rightarrow> Inr (''0x'' @ concat (map byteHex bs))
      | SigHex h \<Rightarrow> Inr (''0x'' @ concat (map (\<lambda>_. ''undefined'') h))
      | SigObject _ \<Rightarrow> Inr ''0x'')"

definition stubSerializeErc6492Signature ::
  "Address option \<Rightarrow> Hex option \<Rightarrow> Hex \<Rightarrow> error + Hex" where
  "stubSerializeErc6492Signature fac facData sg =
     (case (fac, facData) of
        (Some f, Some d) \<Rightarrow> Inr (''0x'' @ drop 2 f @ drop 2 d @ drop 2 sg @ drop 2 erc6492MagicBytes)
      | _ \<Rightarrow> Inl (OtherError ''InvalidAddressError'' ''Address is invalid.''))"

definition stubGetAddress :: "Address \<Rightarrow> error + Address" where
  "stubGetAddress a =
     (if length a = 42 \<and> hexStrict a then Inr a
      else Inl (OtherError ''InvalidAddressError'' ''Address is invalid.''))"

definition lowerChar :: "char \<Rightarrow> char" where
  "lowerChar c =
     (case map_of [(CHR ''A'', CHR ''a''), (CHR ''B'', CHR ''b''), (CHR ''C'', CHR ''c''),
                   (CHR ''D'', CHR ''d''), (CHR ''E'', CHR ''e''), (CHR ''F'', CHR ''f'')] c of
        None \<Rightarrow> c
      | Some l \<Rightarrow> l)"

definition stubIsAddressEqual :: "Address \<Rightarrow> Address \<Rightarrow> error + bool" where
  "stubIsAddressEqual a b =
     (if length a = 42 \<and> hexStrict a \<and> length b = 42 \<and> hexStrict b
      then Inr (map lowerChar a = map lowerChar b)
      else Inl (OtherError ''InvalidAddressError'' ''Address is invalid.''))"

definition stubDeps :: "(error + Hex option) \<Rightarrow> (error + Address) \<Rightarrow> Deps" where
  "stubDeps callResult recovered = \<lparr>
     isHex = hexStrict,
     serializeSignature = stubSerializeSignature,
     bytesToHex = stubBytesToHex,
     isErc6492Signature = endsWithMagic,
     serializeErc6492Signature = stubSerializeErc6492Signature,
     universalSignatureValidatorAbi = ''universalSignatureValidatorAbi'',
     universalSignatureValidatorByteCode = ''0x608060405234801561001057600080fd5b50'',
     encodeFunctionData = (\<lambda>abi functionName args.
        Inr (''0x98ef1ed8'' @ concat (map (drop 2) args))),
     encodeDeployData = (\<lambda>abi args bytecode. Inr (bytecode @ concat (map (drop 2) args))),
     call = (\<lambda>client cp. callResult),
     hexToBool = decodeBool,
     getAddress = stubGetAddress,
     recoverAddress = (\<lambda>h sg. recovered),
     isAddressEqual = stubIsAddressEqual\<rparr>"

subsection \<open>Sample inputs\<close>

definition sampleAddress :: Address where
  "sampleAddress = ''0xf39Fd6e51aad88F6F4ce6aB8827279cffFb92266''"

definition otherAddress :: Address where
  "otherAddress = ''0x70997970C51812dc3A010C7d01b50e0d17dc79C8''"

definition sampleHash :: Hex where
  "sampleHash = ''0xd9eba16ed0ecae432b71fe008c98cc872bb4cc214d3220a36f365326cf807d68''"

definition sampleSignature :: Hex where
  "sampleSignature = ''0xa461f509887bd19e312c0c58467ce8ff8e300d3c1a90b608a760c5b80318eaf15fe57c96f9175d6cd4daad4663763baa7e78836e067d0163e9a2ccf2ff753f5b1b''"

definition sampleFactory :: Address where
  "sampleFactory = ''0x4e59b44847b379578588920cA78FbF26c0B4956C''"

definition sampleFactoryData :: Hex where
  "sampleFactoryData = ''0x5fbfb9cf000000000000000000000000f39fd6e51aad88f6f4ce6ab8827279cfffb92266''"

text \<open>A signature that the caller has wrapped already: it ends with the marker.\<close>

definition sampleWrappedSignature :: Hex where
  "sampleWrappedSignature =
     ''0x'' @ drop 2 sampleFactory @ drop 2 sampleFactoryData @ drop 2 sampleSignature
       @ drop 2 erc6492MagicBytes"

definition sampleParameters :: "signature_input \<Rightarrow> VerifyHashParameters" where
  "sampleParameters sg = \<lparr>
     blockNumber = None, blockTag = Some ''latest'',
     address = sampleAddress, factory = None, factoryData = None,
     hash = sampleHash, signature = sg\<rparr>"

definition noChainClient :: Client where
  "noChainClient = \<lparr>chain = None\<rparr>"

definition zksyncClient :: Client where
  "zksyncClient = \<lparr>chain = Some zksync\<rparr>"

definition transportError :: error where
  "transportError = OtherError ''HttpRequestError'' ''HTTP request failed.''"

definition recoveryError :: error where
  "recoveryError = OtherError ''InvalidSignatureError'' ''invalid signature length''"

definition executionReverted :: error where
  "executionReverted = CallExecutionError ''execution reverted''"

definition counterfactualParameters :: "signature_input \<Rightarrow> VerifyHashParameters" where
  "counterfactualParameters sg =
     (sampleParameters sg)\<lparr>factory := Some sampleFactory, factoryData := Some sampleFactoryData\<rparr>"

text \<open>A structured signature whose \<open>r\<close> is not a number: serializing it throws.\<close>

definition malformedParameters :: VerifyHashParameters where
  "malformedParameters = sampleParameters (SigObject (Signature ''0xzz'' ''0x01'' None (Some 1)))"

text \<open>Return data: the 32-byte word one.\<close>

definition trueWord :: Hex where
  "trueWord = ''0x0000000000000000000000000000000000000000000000000000000000000001''"

text \<open>The payloads that the sample collaborators build from the sample inputs.\<close>

definition deployPayload :: "Hex \<Rightarrow> CallParameters" where
  "deployPayload sg = \<lparr>
     blockNumber = None, blockTag = Some ''latest'', to = None,
     data = Some (''0x608060405234801561001057600080fd5b50'' @ drop 2 sampleAddress
                    @ drop 2 sampleHash @ drop 2 sg)\<rparr>"

definition zksyncPayload :: "Hex \<Rightarrow> CallParameters" where
  "zksyncPayload sg = \<lparr>
     blockNumber = None, blockTag = Some ''latest'',
     to = Some ''0x872146211f996755C8729042093ffb8660F8b129'',
     data = Some (''0x98ef1ed8'' @ drop 2 sampleAddress @ drop 2 sampleHash @ drop 2 sg)\<rparr>"

text \<open>A failed request as a call action reports it when it wraps every failure.\<close>

definition wrappedTransportError :: error where
  "wrappedTransportError = CallExecutionError ''HTTP request failed.''"

text \<open>
  The structured form of \<open>sampleSignature\<close>: its \<open>r\<close>, its \<open>s\<close> and the parity zero.
\<close>

definition sampleObject :: Signature where
  "sampleObject =
     Signature ''0xa461f509887bd19e312c0c58467ce8ff8e300d3c1a90b608a760c5b80318eaf1''
               ''0x5fe57c96f9175d6cd4daad4663763baa7e78836e067d0163e9a2ccf2ff753f5b''
               None (Some 0)"

text \<open>
  A recovery that yields an address for one hash and one signature value only, and fails
  on every other argument; and the sample collaborators with that recovery, which yields
  \<open>sampleAddress\<close> for \<open>sampleHash\<close> and the given signature value.
\<close>

definition recoverOnly ::
  "Hex \<Rightarrow> signature_input \<Rightarrow> Address \<Rightarrow> Hex \<Rightarrow> signature_input \<Rightarrow> error + Address" where
  "recoverOnly h sg a h' sg' = (if h' = h \<and> sg' = sg then Inr a else Inl recoveryError)"

definition selectiveDeps :: "(error + Hex option) \<Rightarrow> signature_input \<Rightarrow> Deps" where
  "selectiveDeps callResult sg =
     (stubDeps callResult (Inl recoveryError))
       \<lparr>recoverAddress := recoverOnly sampleHash sg sampleAddress\<rparr>"

section \<open>Properties of the steps\<close>

lemma calls_append: "calls (xs @ ys) = calls xs @ calls ys"
  by (induction xs rule: calls.induct) simp_all

lemma recoveries_append: "recoveries (xs @ ys) = recoveries xs @ recoveries ys"
  by (induction xs rule: recoveries.induct) simp_all

lemma wraps_append: "wraps (xs @ ys) = wraps xs @ wraps ys"
  by (induction xs rule: wraps.induct) simp_all

text \<open>The fallback confirms exactly when all three of its calls succeed and the last says yes.\<close>

lemma fallbackVerified_iff:
  "snd (fallbackVerified deps p) \<longleftrightarrow>
     (\<exists>a r. getAddress deps (address p) = Inr a
          \<and> recoverAddress deps (hash p) (signature p) = Inr r
          \<and> isAddressEqual deps a r = Inr True)"
  by (auto simp: fallbackVerified_def split: sum.splits)

lemma fallbackVerified_events:
  "fst (fallbackVerified deps p) =
     (case getAddress deps (address p) of
        Inl _ \<Rightarrow> [] | Inr _ \<Rightarrow> [Recovered (hash p) (signature p)])"
  by (simp add: fallbackVerified_def split: sum.splits)

lemma catchError_eq:
  "catchError deps p err =
     (fst (fallbackVerified deps p),
      if snd (fallbackVerified deps p) then Inr True
      else if isCallExecutionError err then Inr False else Inl err)"
  by (simp add: catchError_def split: prod.splits)

text \<open>The three places of the \<open>try\<close> block that can throw.\<close>

lemma remoteVerify_error_iff:
  "snd (remoteVerify deps client p wrapped) = Inl err \<longleftrightarrow>
     callParameters deps client p wrapped = Inl err
   \<or> (\<exists>cp. callParameters deps client p wrapped = Inr cp
          \<and> (call deps client cp = Inl err
             \<or> (\<exists>d. call deps client cp = Inr d
                  \<and> hexToBool deps (case d of None \<Rightarrow> ''0x0'' | Some h \<Rightarrow> h) = Inl err)))"
  by (auto simp: remoteVerify_def split: sum.splits)

lemma remoteVerify_encode_error:
  "callParameters deps client p wrapped = Inl err \<Longrightarrow>
   remoteVerify deps client p wrapped = ([], Inl err)"
  by (simp add: remoteVerify_def)

lemma remoteVerify_call_error:
  "callParameters deps client p wrapped = Inr cp \<Longrightarrow> call deps client cp = Inl err \<Longrightarrow>
   remoteVerify deps client p wrapped = ([Called cp], Inl err)"
  by (simp add: remoteVerify_def)

lemma remoteVerify_decode:
  "callParameters deps client p wrapped = Inr cp \<Longrightarrow> call deps client cp = Inr d \<Longrightarrow>
   remoteVerify deps client p wrapped =
     ([Called cp], hexToBool deps (case d of None \<Rightarrow> ''0x0'' | Some h \<Rightarrow> h))"
  by (simp add: remoteVerify_def)

subsection \<open>The outcomes of \<open>verifyHash\<close>\<close>

lemma verifyHash_normalize_error:
  "signatureHex deps (signature p) = Inl e \<Longrightarrow> verifyHash deps client p = ([], Inl e)"
  by (simp add: verifyHash_def)

lemma verifyHash_wrap_error:
  "signatureHex deps (signature p) = Inr sigHex \<Longrightarrow>
   wrappedSignature deps (factory p) (factoryData p) sigHex = (tr1, Inl e) \<Longrightarrow>
   verifyHash deps client p = (tr1, Inl e)"
  by (simp add: verifyHash_def)

lemma verifyHash_remote_ok:
  "signatureHex deps (signature p) = Inr sigHex \<Longrightarrow>
   wrappedSignature deps (factory p) (factoryData p) sigHex = (tr1, Inr wrapped) \<Longrightarrow>
   remoteVerify deps client p wrapped = (tr2, Inr b) \<Longrightarrow>
   verifyHash deps client p = (tr1 @ tr2, Inr b)"
  by (simp add: verifyHash_def)

lemma verifyHash_remote_error:
  "signatureHex deps (signature p) = Inr sigHex \<Longrightarrow>
   wrappedSignature deps (factory p) (factoryData p) sigHex = (tr1, Inr wrapped) \<Longrightarrow>
   remoteVerify deps client p wrapped = (tr2, Inl err) \<Longrightarrow>
   verifyHash deps client p =
     (tr1 @ tr2 @ fst (fallbackVerified deps p),
      if snd (fallbackVerified deps p) then Inr True
      else if isCallExecutionError err then Inr False else Inl err)"
  by (simp add: verifyHash_def catchError_eq)

lemma verifyHash_events:
  "signatureHex deps (signature p) = Inr sigHex \<Longrightarrow>
   wrappedSignature deps (factory p) (factoryData p) sigHex = (tr1, Inr wrapped) \<Longrightarrow>
   fst (verifyHash deps client p) =
     tr1 @ fst (remoteVerify deps client p wrapped) @
       (case snd (remoteVerify deps client p wrapped) of
          Inl err \<Rightarrow> fst (catchError deps p err) | Inr _ \<Rightarrow> [])"
  by (simp add: verifyHash_def split: prod.splits sum.splits)

subsection \<open>Which step records which event\<close>

lemma wraps_wrappedSignature:
  "wraps (fst (wrappedSignature deps fac facData sigHex)) =
     (if \<not> (falsy fac \<and> falsy facData) \<and> \<not> isErc6492Signature deps sigHex
      then [(fac, facData, sigHex)] else [])"
  by (simp add: wrappedSignature_def)

lemma wraps_remoteVerify: "wraps (fst (remoteVerify deps client p wrapped)) = []"
  by (simp add: remoteVerify_def split: sum.splits)

lemma wraps_catchError: "wraps (fst (catchError deps p err)) = []"
  by (simp add: catchError_eq fallbackVerified_events split: sum.splits)

lemma calls_wrappedSignature: "calls (fst (wrappedSignature deps fac facData sigHex)) = []"
  by (simp add: wrappedSignature_def)

lemma calls_fallbackVerified: "calls (fst (fallbackVerified deps p)) = []"
  by (simp add: fallbackVerified_events split: sum.splits)

lemma recoveries_wrappedSignature:
  "recoveries (fst (wrappedSignature deps fac facData sigHex)) = []"
  by (simp add: wrappedSignature_def)

lemma recoveries_fallbackVerified:
  "recoveries (fst (fallbackVerified deps p)) =
     (case getAddress deps (address p) of
        Inl _ \<Rightarrow> [] | Inr _ \<Rightarrow> [(hash p, signature p)])"
  by (simp add: fallbackVerified_events split: sum.splits)

subsection \<open>Replacing the recovery function\<close>

text \<open>
  No step but the fallback reads \<open>recoverAddress\<close>, and the fallback reads it at the hash
  and the signature of the parameters only.
\<close>

lemma signatureHex_other_recovery:
  "signatureHex (deps\<lparr>recoverAddress := f\<rparr>) sg = signatureHex deps sg"
  by (cases sg) (simp_all add: signatureHex_def)

lemma wrappedSignature_other_recovery:
  "wrappedSignature (deps\<lparr>recoverAddress := f\<rparr>) fac facData sigHex =
     wrappedSignature deps fac facData sigHex"
  by (simp add: wrappedSignature_def)

lemma callParameters_other_recovery:
  "callParameters (deps\<lparr>recoverAddress := f\<rparr>) client p wrapped =
     callParameters deps client p wrapped"
  by (cases "chainVerifier client") (simp_all add: callParameters_def)

lemma remoteVerify_other_recovery:
  "remoteVerify (deps\<lparr>recoverAddress := f\<rparr>) client p wrapped =
     remoteVerify deps client p wrapped"
  by (simp add: remoteVerify_def callParameters_other_recovery split: sum.splits)

lemma fallbackVerified_other_recovery:
  "f (hash p) (signature p) = recoverAddress deps (hash p) (signature p) \<Longrightarrow>
   fallbackVerified (deps\<lparr>recoverAddress := f\<rparr>) p = fallbackVerified deps p"
  by (simp add: fallbackVerified_def split: sum.splits)

lemma verifyHash_other_recovery:
  "f (hash p) (signature p) = recoverAddress deps (hash p) (signature p) \<Longrightarrow>
   verifyHash (deps\<lparr>recoverAddress := f\<rparr>) client p = verifyHash deps client p"
  by (simp add: verifyHash_def catchError_def signatureHex_other_recovery
      wrappedSignature_other_recovery remoteVerify_other_recovery
      fallbackVerified_other_recovery split: sum.splits prod.splits)

subsection \<open>The decoder\<close>

lemma decodeBool_absent: "decodeBool ''0x0'' = Inr False"
  by (simp add: decodeBool_def booleanShaped_def hexBytes_def hexDigits_def)

lemma decodeBool_empty: "decodeBool ''0x'' = Inr False"
  by (simp add: decodeBool_def hexBytes_def)

lemma decodeBool_shaped:
  "hexBytes h = Some bs \<Longrightarrow> bs \<noteq> [] \<Longrightarrow> booleanShaped bs \<Longrightarrow>
   decodeBool h = Inr (last bs \<noteq> 0)"
  by (simp add: decodeBool_def)

section \<open>The sample collaborators on the sample inputs\<close>

lemma sampleParameters_sel:
  "address (sampleParameters sg) = sampleAddress"
  "hash (sampleParameters sg) = sampleHash"
  "signature (sampleParameters sg) = sg"
  "factory (sampleParameters sg) = None"
  "factoryData (sampleParameters sg) = None"
  "blockNumber (sampleParameters sg) = None"
  "blockTag (sampleParameters sg) = Some ''latest''"
  by (simp_all add: sampleParameters_def)

lemma counterfactualParameters_sel:
  "address (counterfactualParameters sg) = sampleAddress"
  "hash (counterfactualParameters sg) = sampleHash"
  "signature (counterfactualParameters sg) = sg"
  "factory (counterfactualParameters sg) = Some sampleFactory"
  "factoryData (counterfactualParameters sg) = Some sampleFactoryData"
  by (simp_all add: counterfactualParameters_def sampleParameters_def)

lemma stubDeps_sel:
  "isHex (stubDeps cr rc) = hexStrict"
  "isErc6492Signature (stubDeps cr rc) = endsWithMagic"
  "serializeSignature (stubDeps cr rc) = stubSerializeSignature"
  "serializeErc6492Signature (stubDeps cr rc) = stubSerializeErc6492Signature"
  "call (stubDeps cr rc) client cp = cr"
  "hexToBool (stubDeps cr rc) = decodeBool"
  "getAddress (stubDeps cr rc) = stubGetAddress"
  "recoverAddress (stubDeps cr rc) h sg = rc"
  "isAddressEqual (stubDeps cr rc) = stubIsAddressEqual"
  by (simp_all add: stubDeps_def)

lemma stubDeps_encoders:
  "encodeFunctionData (stubDeps cr rc) abi fn args =
     Inr (''0x98ef1ed8'' @ concat (map (drop 2) args))"
  "encodeDeployData (stubDeps cr rc) abi args bytecode =
     Inr (bytecode @ concat (map (drop 2) args))"
  "universalSignatureValidatorByteCode (stubDeps cr rc) =
     ''0x608060405234801561001057600080fd5b50''"
  by (simp_all add: stubDeps_def)

lemma chainVerifier_samples:
  "chainVerifier noChainClient = None"
  "chainVerifier zksyncClient =
     Some \<lparr>contract_address = ''0x872146211f996755C8729042093ffb8660F8b129'',
           blockCreated = Some 45659388\<rparr>"
  by (simp_all add: chainVerifier_def noChainClient_def zksyncClient_def zksync_def)

lemma hexStrict_samples:
  "hexStrict sampleSignature" "hexStrict sampleAddress" "hexStrict otherAddress"
  "hexStrict ''0xabc''"
  by (simp_all add: hexStrict_def hexDigits_def sampleSignature_def sampleAddress_def
      otherAddress_def)

lemma hexStrict_wrapped: "hexStrict sampleWrappedSignature"
  by (simp add: hexStrict_def hexDigits_def erc6492MagicBytes_def sampleWrappedSignature_def
      sampleSignature_def sampleFactory_def sampleFactoryData_def)

lemma endsWithMagic_samples:
  "endsWithMagic sampleWrappedSignature" "\<not> endsWithMagic sampleSignature"
  by (simp_all add: endsWithMagic_def erc6492MagicBytes_def sampleWrappedSignature_def
      sampleSignature_def sampleFactory_def sampleFactoryData_def)

lemma samples_nonempty: "sampleFactory \<noteq> []" "sampleFactoryData \<noteq> []"
  by (simp_all add: sampleFactory_def sampleFactoryData_def)

lemma signatureHex_samples:
  "signatureHex (stubDeps cr rc) (SigHex sampleSignature) = Inr sampleSignature"
  "signatureHex (stubDeps cr rc) (SigHex ''0xabc'') = Inr ''0xabc''"
  "signatureHex (stubDeps cr rc) (SigHex sampleWrappedSignature) = Inr sampleWrappedSignature"
  by (simp_all add: signatureHex_def stubDeps_sel hexStrict_samples hexStrict_wrapped)

lemma signatureHex_malformed:
  "signatureHex (stubDeps cr rc) (signature malformedParameters) =
     Inl (OtherError ''SyntaxError'' ''Cannot convert to a BigInt'')"
  by (simp add: malformedParameters_def sampleParameters_sel signatureHex_def stubDeps_sel
      stubSerializeSignature_def hexStrict_def hexDigits_def)

lemma wrappedSignature_absent: "wrappedSignature deps None None sigHex = ([], Inr sigHex)"
  by (simp add: wrappedSignature_def falsy_def)

lemma callParameters_noChain:
  "callParameters (stubDeps cr rc) noChainClient (sampleParameters sg) wrapped =
     Inr (deployPayload wrapped)"
  by (simp add: callParameters_def chainVerifier_samples stubDeps_def sampleParameters_sel
      deployPayload_def)

lemma callParameters_zksync:
  "callParameters (stubDeps cr rc) zksyncClient (sampleParameters sg) wrapped =
     Inr (zksyncPayload wrapped)"
  by (simp add: callParameters_def chainVerifier_samples stubDeps_def sampleParameters_sel
      zksyncPayload_def)

lemma stubGetAddress_sample: "stubGetAddress sampleAddress = Inr sampleAddress"
  by (simp add: stubGetAddress_def hexStrict_samples) (simp add: sampleAddress_def)

lemma stubIsAddressEqual_samples:
  "stubIsAddressEqual sampleAddress sampleAddress = Inr True"
  "stubIsAddressEqual sampleAddress otherAddress = Inr False"
  by (simp_all add: stubIsAddressEqual_def hexStrict_samples)
     (simp_all add: sampleAddress_def otherAddress_def lowerChar_def)

lemma hexBytes_trueWord:
  "hexBytes trueWord =
     Some [0, 0, 0, 0, 0, 0, 0, 0, 0, 0, 0, 0, 0, 0, 0, 0,
           0, 0, 0, 0, 0, 0, 0, 0, 0, 0, 0, 0, 0, 0, 0, 1]"
  by (simp add: hexBytes_def hexDigits_def trueWord_def)

lemma decodeBool_samples:
  "decodeBool ''0x02'' = Inl (InvalidHexBooleanError ''0x02'')"
  "decodeBool trueWord = Inr True"
  by (simp_all add: decodeBool_def booleanShaped_def hexBytes_trueWord)
     (simp add: hexBytes_def hexDigits_def booleanShaped_def)

lemma remoteVerify_samples:
  "remoteVerify (stubDeps (Inl err) rc) noChainClient (sampleParameters sg) wrapped =
     ([Called (deployPayload wrapped)], Inl err)"
  "remoteVerify (stubDeps (Inr (Some ''0x02'')) rc) noChainClient (sampleParameters sg) wrapped =
     ([Called (deployPayload wrapped)], Inl (InvalidHexBooleanError ''0x02''))"
  by (simp_all add: remoteVerify_def callParameters_noChain stubDeps_sel decodeBool_samples)

lemma fallbackVerified_samples:
  "fallbackVerified (stubDeps cr (Inr sampleAddress)) (sampleParameters sg) =
     ([Recovered sampleHash sg], True)"
  "fallbackVerified (stubDeps cr (Inr otherAddress)) (sampleParameters sg) =
     ([Recovered sampleHash sg], False)"
  "fallbackVerified (stubDeps cr (Inl e)) (sampleParameters sg) =
     ([Recovered sampleHash sg], False)"
  by (simp_all add: fallbackVerified_def sampleParameters_sel stubDeps_sel
      stubGetAddress_sample stubIsAddressEqual_samples)

lemma verifyHash_sample_error:
  "verifyHash (stubDeps (Inl err) rc) noChainClient (sampleParameters (SigHex sampleSignature)) =
     (Called (deployPayload sampleSignature) #
        fst (fallbackVerified (stubDeps (Inl err) rc) (sampleParameters (SigHex sampleSignature))),
      if snd (fallbackVerified (stubDeps (Inl err) rc) (sampleParameters (SigHex sampleSignature)))
      then Inr True else if isCallExecutionError err then Inr False else Inl err)"
  using verifyHash_remote_error
    [of "stubDeps (Inl err) rc" "sampleParameters (SigHex sampleSignature)" sampleSignature "[]"
        sampleSignature noChainClient "[Called (deployPayload sampleSignature)]" err]
  by (simp add: sampleParameters_sel signatureHex_samples wrappedSignature_absent
      remoteVerify_samples)

lemmas sample_eval =
  sampleParameters_sel counterfactualParameters_sel stubDeps_sel stubDeps_encoders
  chainVerifier_samples hexStrict_samples endsWithMagic_samples samples_nonempty
  signatureHex_samples signatureHex_malformed wrappedSignature_absent callParameters_noChain
  callParameters_zksync stubGetAddress_sample stubIsAddressEqual_samples hexBytes_trueWord
  decodeBool_samples remoteVerify_samples fallbackVerified_samples

lemma selectiveDeps_sel:
  "isHex (selectiveDeps cr sg) = hexStrict"
  "isErc6492Signature (selectiveDeps cr sg) = endsWithMagic"
  "serializeSignature (selectiveDeps cr sg) = stubSerializeSignature"
  "serializeErc6492Signature (selectiveDeps cr sg) = stubSerializeErc6492Signature"
  "call (selectiveDeps cr sg) client cp = cr"
  "hexToBool (selectiveDeps cr sg) = decodeBool"
  "getAddress (selectiveDeps cr sg) = stubGetAddress"
  "recoverAddress (selectiveDeps cr sg) = recoverOnly sampleHash sg sampleAddress"
  "isAddressEqual (selectiveDeps cr sg) = stubIsAddressEqual"
  by (simp_all add: selectiveDeps_def stubDeps_def)

lemma callParameters_counterfactual:
  "callParameters (stubDeps cr rc) noChainClient (counterfactualParameters sg) wrapped =
     Inr (deployPayload wrapped)"
  "callParameters (selectiveDeps cr sg') noChainClient (counterfactualParameters sg) wrapped =
     Inr (deployPayload wrapped)"
  by (simp_all add: callParameters_def chainVerifier_samples selectiveDeps_def stubDeps_def
      counterfactualParameters_def sampleParameters_def deployPayload_def)

lemma stubSerializeSignature_sample: "stubSerializeSignature sampleObject = Inr sampleSignature"
  by (simp add: stubSerializeSignature_def sampleObject_def hexStrict_def hexDigits_def
      padLeft64_def sampleSignature_def)

lemma stubSerializeErc6492Signature_sample:
  "stubSerializeErc6492Signature (Some sampleFactory) (Some sampleFactoryData) sampleSignature =
     Inr sampleWrappedSignature"
  by (simp add: stubSerializeErc6492Signature_def sampleWrappedSignature_def)

lemma signatureHex_selective:
  "signatureHex (selectiveDeps cr sg) (SigObject sampleObject) = Inr sampleSignature"
  "signatureHex (selectiveDeps cr sg) (SigHex sampleWrappedSignature) = Inr sampleWrappedSignature"
  by (simp_all add: signatureHex_def selectiveDeps_sel stubSerializeSignature_sample
      hexStrict_wrapped)

lemma wrappedSignature_samples:
  "wrappedSignature (stubDeps cr rc) (Some sampleFactory) (Some sampleFactoryData)
       sampleSignature =
     ([Wrapped (Some sampleFactory) (Some sampleFactoryData) sampleSignature],
      Inr sampleWrappedSignature)"
  "wrappedSignature (selectiveDeps cr sg) (Some sampleFactory) (Some sampleFactoryData)
       sampleSignature =
     ([Wrapped (Some sampleFactory) (Some sampleFactoryData) sampleSignature],
      Inr sampleWrappedSignature)"
  "wrappedSignature (selectiveDeps cr sg) (Some sampleFactory) (Some sampleFactoryData)
       sampleWrappedSignature = ([], Inr sampleWrappedSignature)"
  by (simp_all add: wrappedSignature_def falsy_def samples_nonempty stubDeps_sel
      selectiveDeps_sel endsWithMagic_samples stubSerializeErc6492Signature_sample)

lemma remoteVerify_counterfactual:
  "remoteVerify (selectiveDeps (Inl err) sg') noChainClient (counterfactualParameters sg) wrapped =
     ([Called (deployPayload wrapped)], Inl err)"
  "remoteVerify (stubDeps (Inr (Some trueWord)) rc) noChainClient (counterfactualParameters sg)
       wrapped =
     ([Called (deployPayload wrapped)], Inr True)"
  by (simp_all add: remoteVerify_def callParameters_counterfactual selectiveDeps_sel
      stubDeps_sel decodeBool_samples)

lemma wrapped_differs:
  "sampleWrappedSignature \<noteq> sampleSignature" "sampleSignature \<noteq> sampleWrappedSignature"
  by (simp_all add: sampleWrappedSignature_def sampleSignature_def sampleFactory_def)

lemma recoverOnly_samples:
  "recoverOnly sampleHash sg sampleAddress sampleHash sg = Inr sampleAddress"
  "recoverOnly sampleHash (SigHex sampleSignature) sampleAddress sampleHash
     (SigHex sampleWrappedSignature) = Inl recoveryError"
  "recoverOnly sampleHash (SigObject sampleObject) sampleAddress sampleHash (SigHex x) =
     Inl recoveryError"
  by (simp_all add: recoverOnly_def wrapped_differs)

lemmas selective_eval =
  selectiveDeps_sel callParameters_counterfactual signatureHex_selective
  wrappedSignature_samples remoteVerify_counterfactual recoverOnly_samples
  stubSerializeErc6492Signature_sample

section \<open>The claims\<close>

subsection \<open>C1: a remote failure that is not an execution revert\<close>

text \<open>
  C1 as stated: a remote-call failure that is not an execution revert (a transport fault,
  say) is propagated at once, without the local recovery fallback, and \<open>verifyHash\<close>
  never returns for it, least of all \<open>false\<close>. The \<open>catch\<close> block runs the fallback for
  every error and then asks only whether the error is a \<open>CallExecutionError\<close>. So the
  claim fails however the call action hands a transport fault over. Wrapped in a
  \<open>CallExecutionError\<close>, with a recovery that yields another address: the recovery is
  attempted and \<open>verifyHash\<close> returns \<open>false\<close>. Handed over as it is, with a recovery that
  yields the claimed address: the recovery is attempted and \<open>verifyHash\<close> returns \<open>true\<close>.
\<close>

theorem transport_error_counterexample:
  "call (stubDeps (Inl wrappedTransportError) (Inr otherAddress)) noChainClient
     (deployPayload sampleSignature) = Inl (CallExecutionError ''HTTP request failed.'')
 \<and> verifyHash (stubDeps (Inl wrappedTransportError) (Inr otherAddress)) noChainClient
     (sampleParameters (SigHex sampleSignature)) =
   ([Called (deployPayload sampleSignature), Recovered sampleHash (SigHex sampleSignature)],
    Inr False)
 \<and> \<not> isCallExecutionError transportError
 \<and> call (stubDeps (Inl transportError) (Inr sampleAddress)) noChainClient
     (deployPayload sampleSignature) = Inl transportError
 \<and> verifyHash (stubDeps (Inl transportError) (Inr sampleAddress)) noChainClient
     (sampleParameters (SigHex sampleSignature)) =
   ([Called (deployPayload sampleSignature), Recovered sampleHash (SigHex sampleSignature)],
    Inr True)"
  by (simp add: verifyHash_sample_error fallbackVerified_samples stubDeps_sel
      transportError_def wrappedTransportError_def)

text \<open>
  C1 as amended: for every failure of the remote call, of whatever kind, \<open>verifyHash\<close>
  first attempts the local recovery fallback (on the parameters' hash and signature,
  whenever \<open>getAddress\<close> accepts the claimed address) and returns \<open>true\<close> if the recovery
  succeeds with an address canonically equal to the claimed one. Otherwise the test
  \<open>error instanceof CallExecutionError\<close> alone decides: an error that is not an instance
  is raised to the caller and never turned into \<open>false\<close>; an error that is an instance
  gives \<open>false\<close>.
\<close>

theorem call_failure_tries_recovery_then_classifies:
  assumes "signatureHex deps (signature p) = Inr sigHex"
    and "wrappedSignature deps (factory p) (factoryData p) sigHex = (tr1, Inr wrapped)"
    and "callParameters deps client p wrapped = Inr cp"
    and "call deps client cp = Inl err"
  shows "snd (verifyHash deps client p) =
           (if \<exists>a r. getAddress deps (address p) = Inr a
                    \<and> recoverAddress deps (hash p) (signature p) = Inr r
                    \<and> isAddressEqual deps a r = Inr True
            then Inr True
            else if isCallExecutionError err then Inr False else Inl err)
       \<and> (\<not> isCallExecutionError err \<longrightarrow> snd (verifyHash deps client p) \<noteq> Inr False)
       \<and> recoveries (fst (verifyHash deps client p)) =
           (case getAddress deps (address p) of
              Inl _ \<Rightarrow> [] | Inr _ \<Rightarrow> [(hash p, signature p)])"
proof -
  have quiet: "recoveries tr1 = []"
    using recoveries_wrappedSignature [of deps "factory p" "factoryData p" sigHex] assms(2)
    by simp
  show ?thesis
    using verifyHash_remote_error [OF assms(1,2) remoteVerify_call_error [OF assms(3,4)]]
      quiet
    by (simp add: fallbackVerified_iff recoveries_append recoveries_fallbackVerified)
qed

text \<open>
  The amended C1 on the sample inputs. A failed request wrapped in a
  \<open>CallExecutionError\<close>: \<open>false\<close> when the recovery yields another address, \<open>true\<close> when it
  yields the claimed one, the recovery being tried in both cases. An error that is not a
  \<open>CallExecutionError\<close>, with a recovery that yields another address: that error is raised.
\<close>

theorem call_failure_witness:
  "snd (verifyHash (stubDeps (Inl wrappedTransportError) (Inr otherAddress)) noChainClient
     (sampleParameters (SigHex sampleSignature))) = Inr False
 \<and> recoveries (fst (verifyHash (stubDeps (Inl wrappedTransportError) (Inr otherAddress))
     noChainClient (sampleParameters (SigHex sampleSignature)))) =
     [(sampleHash, SigHex sampleSignature)]
 \<and> snd (verifyHash (stubDeps (Inl wrappedTransportError) (Inr sampleAddress)) noChainClient
     (sampleParameters (SigHex sampleSignature))) = Inr True
 \<and> snd (verifyHash (stubDeps (Inl transportError) (Inr otherAddress)) noChainClient
     (sampleParameters (SigHex sampleSignature))) = Inl transportError"
  using call_failure_tries_recovery_then_classifies
    [of "stubDeps (Inl wrappedTransportError) (Inr otherAddress)"
        "sampleParameters (SigHex sampleSignature)" sampleSignature "[]" sampleSignature
        noChainClient "deployPayload sampleSignature" wrappedTransportError]
    call_failure_tries_recovery_then_classifies
    [of "stubDeps (Inl wrappedTransportError) (Inr sampleAddress)"
        "sampleParameters (SigHex sampleSignature)" sampleSignature "[]" sampleSignature
        noChainClient "deployPayload sampleSignature" wrappedTransportError]
    call_failure_tries_recovery_then_classifies
    [of "stubDeps (Inl transportError) (Inr otherAddress)"
        "sampleParameters (SigHex sampleSignature)" sampleSignature "[]" sampleSignature
        noChainClient "deployPayload sampleSignature" transportError]
  by (simp add: sample_eval transportError_def wrappedTransportError_def)

subsection \<open>C2: an execution revert\<close>

text \<open>
  C2: when the remote call fails with an execution revert, \<open>verifyHash\<close> returns \<open>true\<close> if
  local recovery succeeds and the recovered address is canonically equal to the claimed
  address, and \<open>false\<close> otherwise; it does not raise.
\<close>

theorem revert_returns_recovery_match:
  assumes "signatureHex deps (signature p) = Inr sigHex"
    and "wrappedSignature deps (factory p) (factoryData p) sigHex = (tr1, Inr wrapped)"
    and "callParameters deps client p wrapped = Inr cp"
    and "call deps client cp = Inl (CallExecutionError msg)"
  shows "snd (verifyHash deps client p) =
           Inr (\<exists>a r. getAddress deps (address p) = Inr a
                    \<and> recoverAddress deps (hash p) (signature p) = Inr r
                    \<and> isAddressEqual deps a r = Inr True)"
  using verifyHash_remote_error [OF assms(1,2) remoteVerify_call_error [OF assms(3,4)]]
  by (simp add: fallbackVerified_iff)

text \<open>
  C2 on the sample inputs, the call reverting: recovery of the claimed address gives
  \<open>true\<close>; recovery of another address, and a recovery that fails, give \<open>false\<close>.
\<close>

theorem revert_witness:
  "snd (verifyHash (stubDeps (Inl executionReverted) (Inr sampleAddress)) noChainClient
     (sampleParameters (SigHex sampleSignature))) = Inr True
 \<and> snd (verifyHash (stubDeps (Inl executionReverted) (Inr otherAddress)) noChainClient
     (sampleParameters (SigHex sampleSignature))) = Inr False
 \<and> snd (verifyHash (stubDeps (Inl executionReverted) (Inl recoveryError)) noChainClient
     (sampleParameters (SigHex sampleSignature))) = Inr False"
  using revert_returns_recovery_match
    [of "stubDeps (Inl executionReverted) (Inr sampleAddress)"
        "sampleParameters (SigHex sampleSignature)" sampleSignature "[]" sampleSignature
        noChainClient "deployPayload sampleSignature" "''execution reverted''"]
    revert_returns_recovery_match
    [of "stubDeps (Inl executionReverted) (Inr otherAddress)"
        "sampleParameters (SigHex sampleSignature)" sampleSignature "[]" sampleSignature
        noChainClient "deployPayload sampleSignature" "''execution reverted''"]
    revert_returns_recovery_match
    [of "stubDeps (Inl executionReverted) (Inl recoveryError)"
        "sampleParameters (SigHex sampleSignature)" sampleSignature "[]" sampleSignature
        noChainClient "deployPayload sampleSignature" "''execution reverted''"]
  by (simp add: sample_eval executionReverted_def)

subsection \<open>C3: the two call payloads\<close>

text \<open>
  C3: one payload is handed to the call executor, chosen by whether the client's chain
  names a \<open>universalSignatureVerifier\<close> contract. If it does, the payload is addressed to
  that contract and its data is \<open>encodeFunctionData\<close> of \<open>isValidUniversalSig\<close> with the
  arguments (address, hash, wrapped-or-plain signature). If it does not, the payload has
  no destination and its data is \<open>encodeDeployData\<close> of the validator bytecode with the
  same arguments as constructor arguments. The block options pass through unchanged.
\<close>

theorem payload_selected_by_chain_verifier:
  assumes "signatureHex deps (signature p) = Inr sigHex"
    and "wrappedSignature deps (factory p) (factoryData p) sigHex = (tr1, Inr wrapped)"
  shows "(\<forall>verifier d.
            chainVerifier client = Some verifier \<and>
            encodeFunctionData deps (universalSignatureValidatorAbi deps)
              ''isValidUniversalSig'' [address p, hash p, wrapped] = Inr d \<longrightarrow>
            calls (fst (verifyHash deps client p)) =
              [\<lparr>blockNumber = blockNumber p, blockTag = blockTag p,
                to = Some (contract_address verifier), data = Some d\<rparr>])
       \<and> (\<forall>d.
            chainVerifier client = None \<and>
            encodeDeployData deps (universalSignatureValidatorAbi deps)
              [address p, hash p, wrapped] (universalSignatureValidatorByteCode deps) = Inr d \<longrightarrow>
            calls (fst (verifyHash deps client p)) =
              [\<lparr>blockNumber = blockNumber p, blockTag = blockTag p,
                to = None, data = Some d\<rparr>])"
proof -
  have quiet: "calls tr1 = []"
    using calls_wrappedSignature [of deps "factory p" "factoryData p" sigHex] assms(2) by simp
  have "calls (fst (verifyHash deps client p)) = calls (fst (remoteVerify deps client p wrapped))"
    using verifyHash_events [OF assms] quiet
    by (simp add: calls_append catchError_eq calls_fallbackVerified split: sum.splits)
  then show ?thesis
    by (auto simp: remoteVerify_def callParameters_def)
qed

text \<open>
  C3 on the sample inputs: with the \<open>zksync\<close> chain the payload goes to the verifier
  contract of the chain definition; with no chain it is the deployment payload.
\<close>

theorem payload_selected_witness:
  "calls (fst (verifyHash (stubDeps (Inr (Some trueWord)) (Inl recoveryError)) zksyncClient
      (sampleParameters (SigHex sampleSignature)))) = [zksyncPayload sampleSignature]
 \<and> calls (fst (verifyHash (stubDeps (Inr (Some trueWord)) (Inl recoveryError)) noChainClient
      (sampleParameters (SigHex sampleSignature)))) = [deployPayload sampleSignature]"
  using payload_selected_by_chain_verifier
    [of "stubDeps (Inr (Some trueWord)) (Inl recoveryError)"
        "sampleParameters (SigHex sampleSignature)" sampleSignature "[]" sampleSignature
        zksyncClient]
    payload_selected_by_chain_verifier
    [of "stubDeps (Inr (Some trueWord)) (Inl recoveryError)"
        "sampleParameters (SigHex sampleSignature)" sampleSignature "[]" sampleSignature
        noChainClient]
  by (simp add: sample_eval zksyncPayload_def deployPayload_def)

subsection \<open>C4: wrapping\<close>

text \<open>
  C4: a signature that is wrapped already is passed on unchanged, whatever the deployment
  parameters; so is every signature when the deployment parameters are absent; the
  signature is wrapped exactly when deployment parameters are present and it is not
  wrapped yet, and then what is passed on is the output of \<open>serializeErc6492Signature\<close>
  on the factory, the factory data and the normalized signature (or its error, which
  ends \<open>verifyHash\<close>). The value passed on is the signature argument of the one payload.
\<close>

theorem wrap_only_unwrapped_with_deployment:
  assumes "signatureHex deps (signature p) = Inr sigHex"
  shows "wraps (fst (verifyHash deps client p)) =
           (if \<not> (falsy (factory p) \<and> falsy (factoryData p)) \<and> \<not> isErc6492Signature deps sigHex
            then [(factory p, factoryData p, sigHex)] else [])
       \<and> (isErc6492Signature deps sigHex \<or> (falsy (factory p) \<and> falsy (factoryData p)) \<longrightarrow>
            wrappedSignature deps (factory p) (factoryData p) sigHex = ([], Inr sigHex))
       \<and> (\<not> (falsy (factory p) \<and> falsy (factoryData p)) \<and> \<not> isErc6492Signature deps sigHex \<longrightarrow>
            wrappedSignature deps (factory p) (factoryData p) sigHex =
              ([Wrapped (factory p) (factoryData p) sigHex],
               serializeErc6492Signature deps (factory p) (factoryData p) sigHex))
       \<and> (\<forall>passed. snd (wrappedSignature deps (factory p) (factoryData p) sigHex) = Inr passed \<longrightarrow>
            calls (fst (verifyHash deps client p)) =
              (case callParameters deps client p passed of Inl _ \<Rightarrow> [] | Inr cp \<Rightarrow> [cp]))
       \<and> (\<forall>e. snd (wrappedSignature deps (factory p) (factoryData p) sigHex) = Inl e \<longrightarrow>
            verifyHash deps client p = ([Wrapped (factory p) (factoryData p) sigHex], Inl e))"
proof -
  obtain tr1 res where w: "wrappedSignature deps (factory p) (factoryData p) sigHex = (tr1, res)"
    by (cases "wrappedSignature deps (factory p) (factoryData p) sigHex")
  have "wraps (fst (verifyHash deps client p)) = wraps tr1"
  proof (cases res)
    case (Inl e)
    then show ?thesis using verifyHash_wrap_error [OF assms, of tr1 e client] w by simp
  next
    case (Inr wrapped)
    then show ?thesis
      using verifyHash_events [OF assms, of tr1 wrapped client] w
      by (simp add: wraps_append wraps_remoteVerify wraps_catchError split: sum.splits)
  qed
  then have "wraps (fst (verifyHash deps client p)) =
          wraps (fst (wrappedSignature deps (factory p) (factoryData p) sigHex))"
    using w by simp
  then have logged: "wraps (fst (verifyHash deps client p)) =
           (if \<not> (falsy (factory p) \<and> falsy (factoryData p)) \<and> \<not> isErc6492Signature deps sigHex
            then [(factory p, factoryData p, sigHex)] else [])"
    by (simp add: wraps_wrappedSignature)
  have skip: "isErc6492Signature deps sigHex \<or> (falsy (factory p) \<and> falsy (factoryData p)) \<longrightarrow>
            wrappedSignature deps (factory p) (factoryData p) sigHex = ([], Inr sigHex)"
    by (auto simp: wrappedSignature_def)
  have wrap: "\<not> (falsy (factory p) \<and> falsy (factoryData p)) \<and> \<not> isErc6492Signature deps sigHex \<longrightarrow>
            wrappedSignature deps (factory p) (factoryData p) sigHex =
              ([Wrapped (factory p) (factoryData p) sigHex],
               serializeErc6492Signature deps (factory p) (factoryData p) sigHex)"
    by (auto simp: wrappedSignature_def)
  have payload: "calls (fst (verifyHash deps client p)) =
              (case callParameters deps client p passed of Inl _ \<Rightarrow> [] | Inr cp \<Rightarrow> [cp])"
    if "snd (wrappedSignature deps (factory p) (factoryData p) sigHex) = Inr passed" for passed
  proof -
    have full: "wrappedSignature deps (factory p) (factoryData p) sigHex = (tr1, Inr passed)"
      using that w by simp
    have "calls tr1 = []"
      using calls_wrappedSignature [of deps "factory p" "factoryData p" sigHex] w by simp
    then show ?thesis
      using verifyHash_events [OF assms full, of client]
      by (simp add: calls_append catchError_eq calls_fallbackVerified remoteVerify_def
          split: sum.splits)
  qed
  have failed: "verifyHash deps client p = ([Wrapped (factory p) (factoryData p) sigHex], Inl e)"
    if "snd (wrappedSignature deps (factory p) (factoryData p) sigHex) = Inl e" for e
  proof -
    have "tr1 = [Wrapped (factory p) (factoryData p) sigHex]"
      using that w by (auto simp: wrappedSignature_def split: if_splits)
    then show ?thesis
      using verifyHash_wrap_error [OF assms, of tr1 e client] that w by simp
  qed
  show ?thesis
    using logged skip wrap payload failed by blast
qed

text \<open>
  C4 on the sample inputs. With deployment parameters the plain signature is wrapped once,
  and the payload carries the wrapper's output; a signature that ends with the marker is
  not wrapped again; without deployment parameters nothing is wrapped.
\<close>

theorem wrap_witness:
  "wraps (fst (verifyHash (stubDeps (Inr (Some trueWord)) (Inl recoveryError)) noChainClient
      (counterfactualParameters (SigHex sampleSignature)))) =
     [(Some sampleFactory, Some sampleFactoryData, sampleSignature)]
 \<and> wrappedSignature (stubDeps (Inr (Some trueWord)) (Inl recoveryError))
      (Some sampleFactory) (Some sampleFactoryData) sampleSignature =
     ([Wrapped (Some sampleFactory) (Some sampleFactoryData) sampleSignature],
      Inr sampleWrappedSignature)
 \<and> calls (fst (verifyHash (stubDeps (Inr (Some trueWord)) (Inl recoveryError)) noChainClient
      (counterfactualParameters (SigHex sampleSignature)))) =
     [deployPayload sampleWrappedSignature]
 \<and> wraps (fst (verifyHash (stubDeps (Inr (Some trueWord)) (Inl recoveryError)) noChainClient
      (counterfactualParameters (SigHex sampleWrappedSignature)))) = []
 \<and> wrappedSignature (stubDeps (Inr (Some trueWord)) (Inl recoveryError))
      (Some sampleFactory) (Some sampleFactoryData) sampleWrappedSignature =
     ([], Inr sampleWrappedSignature)
 \<and> wraps (fst (verifyHash (stubDeps (Inr (Some trueWord)) (Inl recoveryError)) noChainClient
      (sampleParameters (SigHex sampleSignature)))) = []
 \<and> calls (fst (verifyHash (stubDeps (Inr (Some trueWord)) (Inl recoveryError)) noChainClient
      (sampleParameters (SigHex sampleSignature)))) = [deployPayload sampleSignature]"
  using wrap_only_unwrapped_with_deployment
    [of "stubDeps (Inr (Some trueWord)) (Inl recoveryError)"
        "counterfactualParameters (SigHex sampleSignature)" sampleSignature noChainClient]
    wrap_only_unwrapped_with_deployment
    [of "stubDeps (Inr (Some trueWord)) (Inl recoveryError)"
        "counterfactualParameters (SigHex sampleWrappedSignature)" sampleWrappedSignature
        noChainClient]
    wrap_only_unwrapped_with_deployment
    [of "stubDeps (Inr (Some trueWord)) (Inl recoveryError)"
        "sampleParameters (SigHex sampleSignature)" sampleSignature noChainClient]
  by (simp add: sample_eval selective_eval falsy_def)

subsection \<open>C5: return data that does not decode\<close>

text \<open>
  C5 as stated: when the remote call succeeds with data that is not boolean-shaped, the
  decoder's error always reaches the caller, never starts the recovery fallback and is
  never turned into a boolean. The decoder runs inside the \<open>try\<close> block: here the call
  returns the byte \<open>0x02\<close>, the decoder throws, the recovery is attempted and yields the
  claimed address, and \<open>verifyHash\<close> returns \<open>true\<close>.
\<close>

theorem decode_error_counterexample:
  "call (stubDeps (Inr (Some ''0x02'')) (Inr sampleAddress)) noChainClient
     (deployPayload sampleSignature) = Inr (Some ''0x02'')
 \<and> hexToBool (stubDeps (Inr (Some ''0x02'')) (Inr sampleAddress)) ''0x02'' =
     Inl (InvalidHexBooleanError ''0x02'')
 \<and> verifyHash (stubDeps (Inr (Some ''0x02'')) (Inr sampleAddress)) noChainClient
     (sampleParameters (SigHex sampleSignature)) =
   ([Called (deployPayload sampleSignature), Recovered sampleHash (SigHex sampleSignature)],
    Inr True)"
  by (simp add: verifyHash_def catchError_def sample_eval)

text \<open>
  C5 as amended: when the remote call succeeds and the decoder throws its
  \<open>InvalidHexBooleanError\<close>, the recovery fallback is tried; \<open>verifyHash\<close> returns \<open>true\<close>
  if it confirms the claimed address, and otherwise raises the decoder's error, which is
  never turned into \<open>false\<close>.
\<close>

theorem decode_error_tries_recovery_then_rethrows:
  assumes "signatureHex deps (signature p) = Inr sigHex"
    and "wrappedSignature deps (factory p) (factoryData p) sigHex = (tr1, Inr wrapped)"
    and "callParameters deps client p wrapped = Inr cp"
    and "call deps client cp = Inr d"
    and "hexToBool deps (case d of None \<Rightarrow> ''0x0'' | Some h \<Rightarrow> h) = Inl (InvalidHexBooleanError x)"
  shows "snd (verifyHash deps client p) =
           (if \<exists>a r. getAddress deps (address p) = Inr a
                    \<and> recoverAddress deps (hash p) (signature p) = Inr r
                    \<and> isAddressEqual deps a r = Inr True
            then Inr True else Inl (InvalidHexBooleanError x))
       \<and> recoveries (fst (verifyHash deps client p)) =
           (case getAddress deps (address p) of
              Inl _ \<Rightarrow> [] | Inr _ \<Rightarrow> [(hash p, signature p)])"
proof -
  have quiet: "recoveries tr1 = []"
    using recoveries_wrappedSignature [of deps "factory p" "factoryData p" sigHex] assms(2)
    by simp
  have "remoteVerify deps client p wrapped = ([Called cp], Inl (InvalidHexBooleanError x))"
    using remoteVerify_decode [OF assms(3,4)] assms(5) by simp
  from verifyHash_remote_error [OF assms(1,2) this] quiet show ?thesis
    by (simp add: fallbackVerified_iff recoveries_append recoveries_fallbackVerified)
qed

text \<open>
  The amended C5 on the sample inputs: the data \<open>0x02\<close> and a recovery that yields another
  address; the decoder's error is raised, after the recovery was tried.
\<close>

theorem decode_error_witness:
  "snd (verifyHash (stubDeps (Inr (Some ''0x02'')) (Inr otherAddress)) noChainClient
     (sampleParameters (SigHex sampleSignature))) = Inl (InvalidHexBooleanError ''0x02'')
 \<and> recoveries (fst (verifyHash (stubDeps (Inr (Some ''0x02'')) (Inr otherAddress)) noChainClient
     (sampleParameters (SigHex sampleSignature)))) = [(sampleHash, SigHex sampleSignature)]"
  using decode_error_tries_recovery_then_rethrows
    [of "stubDeps (Inr (Some ''0x02'')) (Inr otherAddress)"
        "sampleParameters (SigHex sampleSignature)" sampleSignature "[]" sampleSignature
        noChainClient "deployPayload sampleSignature" "Some ''0x02''" "''0x02''"]
  by (simp add: sample_eval)

subsection \<open>C6: normalizing the signature\<close>

text \<open>
  C6 as stated: every hex-string signature that is malformed or of odd length makes the
  normalization fail with an encoding error, with no remote call and no fallback. The
  source returns a string that \<open>isHex\<close> accepts as it is: here the signature \<open>0xabc\<close>, of
  three digits, is normalized to itself, the remote call is made, it reverts, the
  recovery is tried, and \<open>verifyHash\<close> returns \<open>false\<close>.
\<close>

theorem odd_hex_signature_counterexample:
  "odd (length (drop 2 ''0xabc''))
 \<and> isHex (stubDeps (Inl executionReverted) (Inl recoveryError)) ''0xabc''
 \<and> signatureHex (stubDeps (Inl executionReverted) (Inl recoveryError)) (SigHex ''0xabc'') =
     Inr ''0xabc''
 \<and> verifyHash (stubDeps (Inl executionReverted) (Inl recoveryError)) noChainClient
     (sampleParameters (SigHex ''0xabc'')) =
   ([Called (deployPayload ''0xabc''), Recovered sampleHash (SigHex ''0xabc'')], Inr False)"
  by (simp add: verifyHash_def catchError_def sample_eval executionReverted_def)

text \<open>
  C6 as amended: a hex-string signature that \<open>isHex\<close> accepts, of odd length included, is
  passed on unchanged, and normalization does not fail on it. Whenever normalization
  does fail (inside \<open>serializeSignature\<close> or \<open>bytesToHex\<close>), its error is propagated to the
  caller as fatal, with no remote call made and no fallback attempted.
\<close>

theorem accepted_hex_passes_and_normalize_error_is_fatal:
  "(isHex deps h \<longrightarrow> signatureHex deps (SigHex h) = Inr h)
 \<and> (signatureHex deps (signature p) = Inl e \<longrightarrow> verifyHash deps client p = ([], Inl e))"
  by (simp add: signatureHex_def verifyHash_normalize_error)

text \<open>
  The amended C6 on the sample inputs: \<open>0xabc\<close> is passed on, and the structured
  signature that cannot be serialized ends \<open>verifyHash\<close> with that error and no event.
\<close>

theorem normalize_witness:
  "signatureHex (stubDeps (Inl executionReverted) (Inl recoveryError)) (SigHex ''0xabc'') =
     Inr ''0xabc''
 \<and> verifyHash (stubDeps (Inl executionReverted) (Inl recoveryError)) noChainClient
     malformedParameters = ([], Inl (OtherError ''SyntaxError'' ''Cannot convert to a BigInt''))"
  using accepted_hex_passes_and_normalize_error_is_fatal
    [of "stubDeps (Inl executionReverted) (Inl recoveryError)" "''0xabc''" malformedParameters
        "OtherError ''SyntaxError'' ''Cannot convert to a BigInt''" noChainClient]
  by (simp add: sample_eval)

subsection \<open>C7: the signature handed to the recovery\<close>

text \<open>
  C7 as stated: the recovery is always given the plain, unwrapped signature; for a
  caller-supplied signature that is wrapped already, it is given the inner signature and
  not the wrapper bytes. The source never unwraps. Here the caller supplies the wrapped
  form of \<open>sampleSignature\<close>, the call reverts, and the recovery yields the claimed address
  for the inner signature \<open>sampleSignature\<close> and fails on every other value: were the
  recovery performed on the inner signature, the result would be \<open>true\<close>; it is performed
  on the wrapped value, fails, and the result is \<open>false\<close>.
\<close>

theorem recovery_of_wrapped_signature_counterexample:
  "isErc6492Signature (selectiveDeps (Inl executionReverted) (SigHex sampleSignature))
     sampleWrappedSignature
 \<and> serializeErc6492Signature (selectiveDeps (Inl executionReverted) (SigHex sampleSignature))
     (Some sampleFactory) (Some sampleFactoryData) sampleSignature = Inr sampleWrappedSignature
 \<and> recoverAddress (selectiveDeps (Inl executionReverted) (SigHex sampleSignature))
     sampleHash (SigHex sampleSignature) = Inr sampleAddress
 \<and> recoverAddress (selectiveDeps (Inl executionReverted) (SigHex sampleSignature))
     sampleHash (SigHex sampleWrappedSignature) = Inl recoveryError
 \<and> verifyHash (selectiveDeps (Inl executionReverted) (SigHex sampleSignature)) noChainClient
     (counterfactualParameters (SigHex sampleWrappedSignature)) =
   ([Called (deployPayload sampleWrappedSignature),
     Recovered sampleHash (SigHex sampleWrappedSignature)], Inr False)"
  by (simp add: verifyHash_def catchError_def fallbackVerified_def sample_eval selective_eval
      executionReverted_def)

text \<open>
  C7 as amended: whenever the fallback runs, the recovery is called on the hash and the
  signature of the parameters exactly as the caller passed them: never on the normalized
  or the wrapped value that \<open>verifyHash\<close> computed, and with no unwrapping, so that a
  caller-supplied signature that is wrapped already reaches the recovery with its
  wrapper. The result is decided by what \<open>recoverAddress\<close> answers at that hash and that
  signature, and what it would answer at any other argument changes nothing.
\<close>

theorem recovery_gets_caller_signature:
  assumes "signatureHex deps (signature p) = Inr sigHex"
    and "wrappedSignature deps (factory p) (factoryData p) sigHex = (tr1, Inr wrapped)"
    and "remoteVerify deps client p wrapped = (tr2, Inl err)"
  shows "snd (verifyHash deps client p) =
           (if \<exists>a r. getAddress deps (address p) = Inr a
                    \<and> recoverAddress deps (hash p) (signature p) = Inr r
                    \<and> isAddressEqual deps a r = Inr True
            then Inr True
            else if isCallExecutionError err then Inr False else Inl err)
       \<and> (\<forall>f. f (hash p) (signature p) = recoverAddress deps (hash p) (signature p) \<longrightarrow>
            verifyHash (deps\<lparr>recoverAddress := f\<rparr>) client p = verifyHash deps client p)
       \<and> (\<forall>h sg. Recovered h sg \<in> set (fst (verifyHash deps client p)) \<longrightarrow>
            h = hash p \<and> sg = signature p)"
proof -
  have result: "snd (verifyHash deps client p) =
           (if \<exists>a r. getAddress deps (address p) = Inr a
                    \<and> recoverAddress deps (hash p) (signature p) = Inr r
                    \<and> isAddressEqual deps a r = Inr True
            then Inr True
            else if isCallExecutionError err then Inr False else Inl err)"
    using verifyHash_remote_error [OF assms] by (simp add: fallbackVerified_iff)
  have other: "verifyHash (deps\<lparr>recoverAddress := f\<rparr>) client p = verifyHash deps client p"
    if "f (hash p) (signature p) = recoverAddress deps (hash p) (signature p)" for f
    using that by (rule verifyHash_other_recovery)
  have logged: "h = hash p \<and> sg = signature p"
    if "Recovered h sg \<in> set (fst (verifyHash deps client p))" for h sg
    using that
    by (auto simp: verifyHash_def wrappedSignature_def remoteVerify_def catchError_eq
        fallbackVerified_events split: sum.splits prod.splits if_splits)
  show ?thesis
    using result other logged by blast
qed

text \<open>
  The amended C7 on the sample inputs. The caller passes the structured signature, with
  deployment parameters: the normalized value is \<open>sampleSignature\<close>, the wrapped value is
  \<open>sampleWrappedSignature\<close>, the call reverts, and the recovery yields the claimed
  address for the structured signature only. The result is \<open>true\<close>: the recovery was
  called on the caller's value, not on the other two.
\<close>

theorem recovery_gets_caller_signature_witness:
  "signatureHex (selectiveDeps (Inl executionReverted) (SigObject sampleObject))
     (SigObject sampleObject) = Inr sampleSignature
 \<and> recoverAddress (selectiveDeps (Inl executionReverted) (SigObject sampleObject))
     sampleHash (SigHex sampleSignature) = Inl recoveryError
 \<and> recoverAddress (selectiveDeps (Inl executionReverted) (SigObject sampleObject))
     sampleHash (SigHex sampleWrappedSignature) = Inl recoveryError
 \<and> snd (verifyHash (selectiveDeps (Inl executionReverted) (SigObject sampleObject))
     noChainClient (counterfactualParameters (SigObject sampleObject))) = Inr True
 \<and> calls (fst (verifyHash (selectiveDeps (Inl executionReverted) (SigObject sampleObject))
     noChainClient (counterfactualParameters (SigObject sampleObject)))) =
     [deployPayload sampleWrappedSignature]"
proof -
  have eq: "verifyHash (selectiveDeps (Inl executionReverted) (SigObject sampleObject))
     noChainClient (counterfactualParameters (SigObject sampleObject)) =
   ([Wrapped (Some sampleFactory) (Some sampleFactoryData) sampleSignature,
     Called (deployPayload sampleWrappedSignature),
     Recovered sampleHash (SigObject sampleObject)], Inr True)"
    by (simp add: verifyHash_def catchError_def fallbackVerified_def sample_eval selective_eval)
  show ?thesis
    using recovery_gets_caller_signature
      [of "selectiveDeps (Inl executionReverted) (SigObject sampleObject)"
          "counterfactualParameters (SigObject sampleObject)" sampleSignature
          "[Wrapped (Some sampleFactory) (Some sampleFactoryData) sampleSignature]"
          sampleWrappedSignature noChainClient
          "[Called (deployPayload sampleWrappedSignature)]" executionReverted]
    by (simp add: sample_eval selective_eval eq)
qed

subsection \<open>C8: the decoded boolean\<close>

text \<open>
  C8: when the remote call succeeds, the decoded boolean is the result of \<open>verifyHash\<close>,
  and nothing else is attempted. Absent data (decoded as \<open>'0x0'\<close>) and empty data give
  \<open>false\<close>; other boolean-shaped data give \<open>true\<close> exactly when the trailing byte is not
  zero. The decoder is the one of the specification, \<open>decodeBool\<close>.
\<close>

theorem decoded_boolean_is_result:
  assumes "signatureHex deps (signature p) = Inr sigHex"
    and "wrappedSignature deps (factory p) (factoryData p) sigHex = (tr1, Inr wrapped)"
    and "callParameters deps client p wrapped = Inr cp"
    and "call deps client cp = Inr d"
    and "hexToBool deps = decodeBool"
  shows "(d = None \<or> d = Some ''0x'' \<longrightarrow>
            verifyHash deps client p = (tr1 @ [Called cp], Inr False))
       \<and> (\<forall>h bs. d = Some h \<and> hexBytes h = Some bs \<and> bs \<noteq> [] \<and> booleanShaped bs \<longrightarrow>
            verifyHash deps client p = (tr1 @ [Called cp], Inr (last bs \<noteq> 0)))"
proof -
  have decoded: "verifyHash deps client p = (tr1 @ [Called cp], Inr b)"
    if "decodeBool (case d of None \<Rightarrow> ''0x0'' | Some h \<Rightarrow> h) = Inr b" for b
    using verifyHash_remote_ok [OF assms(1,2), of client "[Called cp]" b]
      remoteVerify_decode [OF assms(3,4)] assms(5) that by simp
  show ?thesis
    using decoded decodeBool_absent decodeBool_empty decodeBool_shaped by auto
qed

text \<open>
  C8 on the sample inputs: absent data gives \<open>false\<close>, the 32-byte word one gives \<open>true\<close>,
  and in both cases the only event is the remote call.
\<close>

theorem decoded_boolean_witness:
  "verifyHash (stubDeps (Inr None) (Inl recoveryError)) noChainClient
     (sampleParameters (SigHex sampleSignature)) =
     ([Called (deployPayload sampleSignature)], Inr False)
 \<and> verifyHash (stubDeps (Inr (Some trueWord)) (Inl recoveryError)) noChainClient
     (sampleParameters (SigHex sampleSignature)) =
     ([Called (deployPayload sampleSignature)], Inr True)"
  using decoded_boolean_is_result
    [of "stubDeps (Inr None) (Inl recoveryError)"
        "sampleParameters (SigHex sampleSignature)" sampleSignature "[]" sampleSignature
        noChainClient "deployPayload sampleSignature" None]
    decoded_boolean_is_result
    [of "stubDeps (Inr (Some trueWord)) (Inl recoveryError)"
        "sampleParameters (SigHex sampleSignature)" sampleSignature "[]" sampleSignature
        noChainClient "deployPayload sampleSignature" "Some trueWord"]
  by (simp add: sample_eval booleanShaped_def)

subsection \<open>C9: an error of the recovery\<close>

text \<open>
  C9: an error raised by the recovery inside the fallback is swallowed and never reaches
  the caller: the fallback just does not confirm, and \<open>verifyHash\<close> ends as the error of
  the remote path alone decides, with \<open>false\<close> for an execution revert and with that
  error otherwise.
\<close>

theorem recovery_error_is_swallowed:
  assumes "signatureHex deps (signature p) = Inr sigHex"
    and "wrappedSignature deps (factory p) (factoryData p) sigHex = (tr1, Inr wrapped)"
    and "remoteVerify deps client p wrapped = (tr2, Inl err)"
    and "recoverAddress deps (hash p) (signature p) = Inl recoveryErr"
  shows "snd (verifyHash deps client p) =
           (if isCallExecutionError err then Inr False else Inl err)"
proof -
  have "\<not> snd (fallbackVerified deps p)"
    using assms(4) by (simp add: fallbackVerified_iff)
  then show ?thesis
    using verifyHash_remote_error [OF assms(1-3)] by simp
qed

text \<open>
  C9 on the sample inputs, the recovery failing: \<open>false\<close> after a revert, the transport
  error after a transport error; the recovery's own error appears in neither.
\<close>

theorem recovery_error_witness:
  "snd (verifyHash (stubDeps (Inl executionReverted) (Inl recoveryError)) noChainClient
     (sampleParameters (SigHex sampleSignature))) = Inr False
 \<and> snd (verifyHash (stubDeps (Inl transportError) (Inl recoveryError)) noChainClient
     (sampleParameters (SigHex sampleSignature))) = Inl transportError"
  using recovery_error_is_swallowed
    [of "stubDeps (Inl executionReverted) (Inl recoveryError)"
        "sampleParameters (SigHex sampleSignature)" sampleSignature "[]" sampleSignature
        noChainClient "[Called (deployPayload sampleSignature)]" executionReverted recoveryError]
    recovery_error_is_swallowed
    [of "stubDeps (Inl transportError) (Inl recoveryError)"
        "sampleParameters (SigHex sampleSignature)" sampleSignature "[]" sampleSignature
        noChainClient "[Called (deployPayload sampleSignature)]" transportError recoveryError]
  by (simp add: sample_eval executionReverted_def transportError_def)

subsection \<open>C10: a recovery match masks any error of the remote path\<close>

text \<open>
  C10: whatever error is thrown in the remote path (by an encoder, by the call executor,
  transport faults included, or by the decoder), if the recovery of the original signature
  succeeds with an address equal to the normalized claimed address, \<open>verifyHash\<close> returns
  \<open>true\<close>.
\<close>

theorem recovery_match_masks_remote_error:
  assumes "signatureHex deps (signature p) = Inr sigHex"
    and "wrappedSignature deps (factory p) (factoryData p) sigHex = (tr1, Inr wrapped)"
    and "remoteVerify deps client p wrapped = (tr2, Inl err)"
    and "getAddress deps (address p) = Inr a"
    and "recoverAddress deps (hash p) (signature p) = Inr r"
    and "isAddressEqual deps a r = Inr True"
  shows "snd (verifyHash deps client p) = Inr True"
proof -
  have "snd (fallbackVerified deps p)"
    using assms(4-6) by (auto simp: fallbackVerified_iff)
  then show ?thesis
    using verifyHash_remote_error [OF assms(1-3)] by simp
qed

text \<open>
  C10 on the sample inputs, the recovery yielding the claimed address: \<open>true\<close> after a
  transport error and after a decoding error.
\<close>

theorem recovery_match_masks_witness:
  "snd (verifyHash (stubDeps (Inl transportError) (Inr sampleAddress)) noChainClient
     (sampleParameters (SigHex sampleSignature))) = Inr True
 \<and> snd (verifyHash (stubDeps (Inr (Some ''0x02'')) (Inr sampleAddress)) noChainClient
     (sampleParameters (SigHex sampleSignature))) = Inr True"
  using recovery_match_masks_remote_error
    [of "stubDeps (Inl transportError) (Inr sampleAddress)"
        "sampleParameters (SigHex sampleSignature)" sampleSignature "[]" sampleSignature
        noChainClient "[Called (deployPayload sampleSignature)]" transportError
        sampleAddress sampleAddress]
    recovery_match_masks_remote_error
    [of "stubDeps (Inr (Some ''0x02'')) (Inr sampleAddress)"
        "sampleParameters (SigHex sampleSignature)" sampleSignature "[]" sampleSignature
        noChainClient "[Called (deployPayload sampleSignature)]" "InvalidHexBooleanError ''0x02''"
        sampleAddress sampleAddress]
  by (simp add: sample_eval)

end
